theory Spec2Isabelle
  imports Main "HOL-Library.Sublist"
begin


section \<open>Python values used by both scripts\<close>

text \<open>
  Exceptions are values.  \<open>ClientError\<close> is botocore's exception, the only one the
  prompt controller's handlers name; the others are the built-in exceptions that the
  subscripts, the joins and the JSON decoder of the source can raise.
  Strings are \<open>string\<close>: the bytes of the UTF-8 text.  \<open>find\<close>, \<open>in\<close> and slicing
  at the ASCII markers cut the bytes where Python cuts the text; where Python counts or
  tests characters (\<open>[:100]\<close>, \<open>strip\<close>, iterating a str), the model goes through
  \<open>characters\<close>, the UTF-8 characters of the bytes.
\<close>

datatype exn =
    ClientError string
  | KeyError string
  | IndexError
  | TypeError
  | JSONDecodeError string
  | OtherException string

text \<open>\<open>str(n)\<close> for a non-negative integer: its decimal digits.\<close>

definition digit :: "nat \<Rightarrow> char" where
  "digit d = char_of (48 + d)"

function str_nat :: "nat \<Rightarrow> string" where
  "str_nat n = (if n < 10 then [digit n] else str_nat (n div 10) @ [digit (n mod 10)])"
  by pat_completeness auto
termination
  by (relation "measure (\<lambda>n. n)") auto

declare str_nat.simps [simp del]

text \<open>An optional value inside an f-string: \<open>None\<close> prints as the word None.\<close>

definition fmt :: "string option \<Rightarrow> string" where
  "fmt x = (case x of None \<Rightarrow> ''None'' | Some s \<Rightarrow> s)"

text \<open>
  \<open>str.upper()\<close> on the ASCII letters.  The environment names of \<open>ENVIRONMENT_CONFIG\<close>
  are ASCII; a letter outside ASCII, which Python would map too, is left as it is.
\<close>

definition upper :: "string \<Rightarrow> string" where
  "upper s = map (\<lambda>c. let n = (of_char c :: nat) in
                        if 97 \<le> n \<and> n \<le> 122 then char_of (n - 32) else c) s"

section \<open>Python strings\<close>

text \<open>
  The characters of a str: in the UTF-8 bytes, a byte from 128 to 191 continues the
  character before it, any other byte starts one.
\<close>

definition continuation :: "char \<Rightarrow> bool" where
  "continuation c = (let n = (of_char c :: nat) in 128 \<le> n \<and> n < 192)"

function characters :: "string \<Rightarrow> string list" where
  "characters [] = []"
| "characters (c # cs) = (c # takeWhile continuation cs) # characters (dropWhile continuation cs)"
  by pat_completeness auto
termination
  by (relation "measure length") (auto simp: length_dropWhile_le less_Suc_eq_le)

text \<open>
  The characters for which \<open>str.isspace\<close> holds, which are the ones \<open>str.strip()\<close>
  removes: U+0009 to U+000D, U+001C to U+0020, U+0085, U+00A0, U+1680, U+2000 to
  U+200A, U+2028, U+2029, U+202F, U+205F and U+3000, each in UTF-8.
\<close>

definition WHITESPACE :: "string list" where
  "WHITESPACE =
     [[CHR 0x09], [CHR 0x0A], [CHR 0x0B], [CHR 0x0C], [CHR 0x0D], [CHR 0x1C], [CHR 0x1D],
      [CHR 0x1E], [CHR 0x1F], [CHR 0x20], [CHR 0xC2, CHR 0x85], [CHR 0xC2, CHR 0xA0],
      [CHR 0xE1, CHR 0x9A, CHR 0x80], [CHR 0xE2, CHR 0x80, CHR 0x80],
      [CHR 0xE2, CHR 0x80, CHR 0x81], [CHR 0xE2, CHR 0x80, CHR 0x82],
      [CHR 0xE2, CHR 0x80, CHR 0x83], [CHR 0xE2, CHR 0x80, CHR 0x84],
      [CHR 0xE2, CHR 0x80, CHR 0x85], [CHR 0xE2, CHR 0x80, CHR 0x86],
      [CHR 0xE2, CHR 0x80, CHR 0x87], [CHR 0xE2, CHR 0x80, CHR 0x88],
      [CHR 0xE2, CHR 0x80, CHR 0x89], [CHR 0xE2, CHR 0x80, CHR 0x8A],
      [CHR 0xE2, CHR 0x80, CHR 0xA8], [CHR 0xE2, CHR 0x80, CHR 0xA9],
      [CHR 0xE2, CHR 0x80, CHR 0xAF], [CHR 0xE2, CHR 0x81, CHR 0x9F],
      [CHR 0xE3, CHR 0x80, CHR 0x80]]"

definition isspace :: "string \<Rightarrow> bool" where
  "isspace ch = (ch \<in> set WHITESPACE)"

text \<open>\<open>s.strip()\<close>: the text without the whitespace characters at its two ends.\<close>

definition strip :: "string \<Rightarrow> string" where
  "strip s = concat (rev (dropWhile isspace (rev (dropWhile isspace (characters s)))))"

text \<open>
  \<open>s.find(sub)\<close>: the lowest index at which \<open>sub\<close> occurs in \<open>s\<close>, \<open>None\<close> for Python's
  \<open>-1\<close>; \<open>s.find(sub, start)\<close> searches from \<open>start\<close> on; \<open>sub in s\<close> holds exactly when
  \<open>s.find(sub)\<close> is not \<open>-1\<close>.  \<open>s[a:b]\<close> is the slice for indices that are not negative.
  The indices count bytes; they are only ever computed from one another.
\<close>

fun find_sub :: "string \<Rightarrow> string \<Rightarrow> nat option" where
  "find_sub sub [] = (if sub = [] then Some 0 else None)"
| "find_sub sub (c # cs) =
     (if prefix sub (c # cs) then Some 0 else map_option Suc (find_sub sub cs))"

definition str_find :: "string \<Rightarrow> string \<Rightarrow> nat \<Rightarrow> nat option" where
  "str_find s sub start =
     (if length s < start then None
      else map_option (\<lambda>i. start + i) (find_sub sub (drop start s)))"

definition slice :: "string \<Rightarrow> nat \<Rightarrow> nat \<Rightarrow> string" where
  "slice s a b = take (b - a) (drop a s)"

text \<open>\<open>sep.join(xs)\<close> for a list of strings.\<close>

fun join :: "string \<Rightarrow> string list \<Rightarrow> string" where
  "join sep [] = []"
| "join sep [x] = x"
| "join sep (x # y # ys) = x @ sep @ join sep (y # ys)"

text \<open>\<open>f'{i:03d}'\<close>: the decimal digits, padded with zeros to three places.\<close>

definition pad3 :: "nat \<Rightarrow> string" where
  "pad3 i = replicate (3 - length (str_nat i)) (CHR ''0'') @ str_nat i"

section \<open>The prompt service as the controller sees it\<close>

text \<open>
  A tag set is a dict from tag key to tag value.  A variant of a prompt carries its text
  under \<open>['templateConfiguration']['text']['text']\<close>: \<open>NoTextTemplate\<close> is a variant
  without that \<open>text\<close> dict (a chat template), \<open>TextTemplate None\<close> one whose dict has no
  \<open>'text'\<close> key.  Fields read with \<open>.get\<close> are optional.
\<close>

type_synonym tags = "string \<rightharpoonup> string"

datatype template_text = NoTextTemplate | TextTemplate "string option"

record variant =
  v_name :: string
  templateConfiguration :: template_text

record prompt =
  p_arn :: "string option"
  p_name :: "string option"
  p_description :: "string option"
  p_variants :: "variant list option"

record version_response =
  vr_version :: "string option"
  vr_arn :: "string option"

text \<open>
  The two boto3 clients are outside the repository: they are parameters.  Every call
  takes the state of the world and returns the new one with either the response or the
  exception it raised.  \<open>list_tags_for_resource\<close> returns the \<open>'tags'\<close> entry of the
  response when it has one; \<open>get_parameter\<close> returns \<open>['Parameter']['Value']\<close>.
\<close>

record 's bedrock_agent =
  get_prompt :: "string \<Rightarrow> 's \<Rightarrow> (exn + prompt) \<times> 's"
  update_prompt :: "string \<Rightarrow> string option \<Rightarrow> string \<Rightarrow> variant list \<Rightarrow> 's \<Rightarrow> (exn + unit) \<times> 's"
  create_prompt_version :: "string \<Rightarrow> string \<Rightarrow> 's \<Rightarrow> (exn + version_response) \<times> 's"
  tag_resource :: "string option \<Rightarrow> tags \<Rightarrow> 's \<Rightarrow> (exn + unit) \<times> 's"
  list_tags_for_resource :: "string \<Rightarrow> 's \<Rightarrow> (exn + tags option) \<times> 's"

record 's ssm_client =
  get_parameter :: "string \<Rightarrow> 's \<Rightarrow> (exn + string) \<times> 's"

record env_config =
  parameter_store_path :: string
  env_description :: string
  default_tags :: tags

definition ENVIRONMENT_CONFIG :: "string \<rightharpoonup> env_config" where
  "ENVIRONMENT_CONFIG =
     [''dev'' \<mapsto> \<lparr>parameter_store_path = ''/prompts/text2sql/dev/current'',
                   env_description = ''Development Environment'',
                   default_tags = [''Environment'' \<mapsto> ''DEV'', ''Status'' \<mapsto> ''TESTING'']\<rparr>,
      ''prod'' \<mapsto> \<lparr>parameter_store_path = ''/prompts/text2sql/prod/current'',
                    env_description = ''Production Environment'',
                    default_tags = [''Environment'' \<mapsto> ''PROD'', ''Status'' \<mapsto> ''ACTIVE'']\<rparr>]"

text \<open>
  The expression \<open>p['variants'][0]['templateConfiguration']['text']['text']\<close>: a
  KeyError without \<open>variants\<close>, an IndexError on an empty list, a KeyError on a missing
  level below.
\<close>

definition variant0_text :: "prompt \<Rightarrow> exn + string" where
  "variant0_text p =
     (case p_variants p of
        None \<Rightarrow> Inl (KeyError ''variants'')
      | Some [] \<Rightarrow> Inl IndexError
      | Some (v # _) \<Rightarrow>
          (case templateConfiguration v of
             NoTextTemplate \<Rightarrow> Inl (KeyError ''text'')
           | TextTemplate None \<Rightarrow> Inl (KeyError ''text'')
           | TextTemplate (Some t) \<Rightarrow> Inr t))"

text \<open>
  The loop that builds \<open>updated_variants\<close>: each variant of \<open>p.get('variants', [])\<close> is
  copied and its text assigned; the assignment needs the \<open>text\<close> dict, not its key.
\<close>

fun updated_variants :: "string \<Rightarrow> variant list \<Rightarrow> exn + variant list" where
  "updated_variants content [] = Inr []"
| "updated_variants content (v # vs) =
     (case templateConfiguration v of
        NoTextTemplate \<Rightarrow> Inl (KeyError ''text'')
      | TextTemplate _ \<Rightarrow>
          (case updated_variants content vs of
             Inl e \<Rightarrow> Inl e
           | Inr us \<Rightarrow> Inr (v\<lparr>templateConfiguration := TextTemplate (Some content)\<rparr> # us)))"

definition variants_or_empty :: "prompt \<Rightarrow> variant list" where
  "variants_or_empty p = (case p_variants p of None \<Rightarrow> [] | Some vs \<Rightarrow> vs)"

section \<open>\<open>list_versions_with_tags\<close>\<close>

record version_info =
  vi_version :: string
  vi_arn :: "string option"
  vi_name :: "string option"
  vi_content :: string
  vi_tags :: tags

definition max_attempts :: nat where
  "max_attempts = 20"

text \<open>
  The summary's content, \<open>text[:100] + "..."\<close> (lines 173 and 200): the first 100
  characters of the text, then the marker.
\<close>

definition content_preview :: "string \<Rightarrow> string" where
  "content_preview text = concat (take 100 (characters text)) @ ''...''"

text \<open>
  The inner \<open>try\<close> around the tag lookup (lines 188--194): a bare \<open>except\<close>, so every
  exception gives the empty dict; a response without \<open>'tags'\<close> gives it too.
\<close>

definition lookup_tags :: "'s bedrock_agent \<Rightarrow> string \<Rightarrow> 's \<Rightarrow> tags \<times> 's" where
  "lookup_tags c version_arn s =
     (case list_tags_for_resource c version_arn s of
        (Inl e, s') \<Rightarrow> (Map.empty, s')
      | (Inr None, s') \<Rightarrow> (Map.empty, s')
      | (Inr (Some t), s') \<Rightarrow> (t, s'))"

text \<open>
  One pass of the \<open>while\<close> body (lines 182--213).  A ClientError of the fetch is caught
  and the loop goes on with the next number (\<open>Absent\<close>); any other exception leaves the
  function (\<open>Raised\<close>); otherwise the summary is appended (\<open>Found\<close>).
\<close>

datatype probe = Absent | Raised exn | Found version_info

definition version_arn_of :: "string option \<Rightarrow> nat \<Rightarrow> string" where
  "version_arn_of base_arn version_num = fmt base_arn @ '':'' @ str_nat version_num"

definition probe_version :: "'s bedrock_agent \<Rightarrow> string option \<Rightarrow> nat \<Rightarrow> 's \<Rightarrow> probe \<times> 's" where
  "probe_version c base_arn version_num s =
     (let version_arn = version_arn_of base_arn version_num in
      case get_prompt c version_arn s of
        (Inl (ClientError m), s1) \<Rightarrow> (Absent, s1)
      | (Inl e, s1) \<Rightarrow> (Raised e, s1)
      | (Inr versioned_prompt, s1) \<Rightarrow>
          (case lookup_tags c version_arn s1 of
             (tags, s2) \<Rightarrow>
               (case variant0_text versioned_prompt of
                  Inl e \<Rightarrow> (Raised e, s2)
                | Inr text \<Rightarrow>
                    (Found \<lparr>vi_version = str_nat version_num,
                            vi_arn = Some version_arn,
                            vi_name = p_name versioned_prompt,
                            vi_content = content_preview text,
                            vi_tags = tags\<rparr>, s2))))"

function probe_versions ::
  "'s bedrock_agent \<Rightarrow> string option \<Rightarrow> nat \<Rightarrow> version_info list \<Rightarrow> 's
     \<Rightarrow> (exn + version_info list) \<times> 's" where
  "probe_versions c base_arn version_num versions s =
     (if version_num \<le> max_attempts then
        (case probe_version c base_arn version_num s of
           (Absent, s') \<Rightarrow> probe_versions c base_arn (version_num + 1) versions s'
         | (Raised e, s') \<Rightarrow> (Inl e, s')
         | (Found info, s') \<Rightarrow>
             probe_versions c base_arn (version_num + 1) (versions @ [info]) s')
      else (Inr versions, s))"
  by pat_completeness auto
termination
  by (relation "measure (\<lambda>(c, base_arn, version_num, versions, s). Suc max_attempts - version_num)")
     auto

declare probe_versions.simps [simp del]

text \<open>The body of the outer \<open>try\<close> (lines 163--215).\<close>

definition list_versions_body ::
  "'s bedrock_agent \<Rightarrow> string \<Rightarrow> 's \<Rightarrow> (exn + version_info list) \<times> 's" where
  "list_versions_body c prompt_identifier s =
     (case get_prompt c prompt_identifier s of
        (Inl e, s1) \<Rightarrow> (Inl e, s1)
      | (Inr draft_prompt, s1) \<Rightarrow>
          (case variant0_text draft_prompt of
             Inl e \<Rightarrow> (Inl e, s1)
           | Inr text \<Rightarrow>
               probe_versions c (p_arn draft_prompt) 1
                 [\<lparr>vi_version = ''DRAFT'',
                   vi_arn = p_arn draft_prompt,
                   vi_name = p_name draft_prompt,
                   vi_content = content_preview text,
                   vi_tags = Map.empty\<rparr>] s1))"

text \<open>The outer handler catches ClientError only and returns the empty list.\<close>

definition list_versions_with_tags ::
  "'s bedrock_agent \<Rightarrow> string \<Rightarrow> 's \<Rightarrow> (exn + version_info list) \<times> 's" where
  "list_versions_with_tags c prompt_identifier s =
     (case list_versions_body c prompt_identifier s of
        (Inl (ClientError m), s') \<Rightarrow> (Inr [], s')
      | r \<Rightarrow> r)"

section \<open>\<open>rollback_to_version\<close>\<close>

text \<open>
  The tag dict of lines 270--278.  \<open>environment\<close> is \<open>self.environment\<close> and \<open>today\<close>
  the reading \<open>datetime.now().strftime('%Y-%m-%d')\<close> of the clock.
\<close>

definition rollback_tags :: "string \<Rightarrow> string \<Rightarrow> string \<Rightarrow> string \<Rightarrow> tags" where
  "rollback_tags environment target_version today rollback_reason =
     [''Environment'' \<mapsto> ''ROLLBACK'',
      ''RollbackFrom'' \<mapsto> ''DRAFT'',
      ''RollbackTo'' \<mapsto> target_version,
      ''RollbackDate'' \<mapsto> today,
      ''RollbackReason'' \<mapsto> rollback_reason,
      ''Status'' \<mapsto> ''ROLLBACK_COMPLETE'',
      ''SourceEnvironment'' \<mapsto> upper environment]"

text \<open>The body of the \<open>try\<close> (lines 235--289); it returns True when nothing raised.\<close>

definition rollback_body ::
  "'s bedrock_agent \<Rightarrow> string \<Rightarrow> string \<Rightarrow> string \<Rightarrow> string \<Rightarrow> string \<Rightarrow> 's
     \<Rightarrow> (exn + bool) \<times> 's" where
  "rollback_body c environment today prompt_identifier target_version rollback_reason s =
     (case get_prompt c prompt_identifier s of
        (Inl e, s1) \<Rightarrow> (Inl e, s1)
      | (Inr current_prompt, s1) \<Rightarrow>
     (case (if target_version = ''DRAFT'' then (Inr current_prompt, s1)
            else get_prompt c (fmt (p_arn current_prompt) @ '':'' @ target_version) s1) of
        (Inl e, s2) \<Rightarrow> (Inl e, s2)
      | (Inr target_prompt, s2) \<Rightarrow>
     (case variant0_text target_prompt of
        Inl e \<Rightarrow> (Inl e, s2)
      | Inr target_content \<Rightarrow>
     (case updated_variants target_content (variants_or_empty current_prompt) of
        Inl e \<Rightarrow> (Inl e, s2)
      | Inr variants \<Rightarrow>
     (case update_prompt c prompt_identifier (p_name current_prompt)
             (''Rollback to version '' @ target_version @ '': '' @ rollback_reason)
             variants s2 of
        (Inl e, s3) \<Rightarrow> (Inl e, s3)
      | (Inr _, s3) \<Rightarrow>
     (case create_prompt_version c prompt_identifier
             (''ROLLBACK to v'' @ target_version @ '' - '' @ rollback_reason) s3 of
        (Inl e, s4) \<Rightarrow> (Inl e, s4)
      | (Inr rollback_version, s4) \<Rightarrow>
     (case tag_resource c (vr_arn rollback_version)
             (rollback_tags environment target_version today rollback_reason) s4 of
        (Inl e, s5) \<Rightarrow> (Inl e, s5)
      | (Inr _, s5) \<Rightarrow> (Inr True, s5))))))))"

text \<open>The handler catches ClientError only and returns False.\<close>

definition rollback_to_version ::
  "'s bedrock_agent \<Rightarrow> string \<Rightarrow> string \<Rightarrow> string \<Rightarrow> string \<Rightarrow> string \<Rightarrow> 's
     \<Rightarrow> (exn + bool) \<times> 's" where
  "rollback_to_version c environment today prompt_identifier target_version rollback_reason s =
     (case rollback_body c environment today prompt_identifier target_version rollback_reason s of
        (Inl (ClientError m), s') \<Rightarrow> (Inr False, s')
      | r \<Rightarrow> r)"

section \<open>\<open>promote_version\<close>\<close>

text \<open>
  The tag dict of lines 366--375: the destination's default tags first, the explicit
  keys after them, so that a later key replaces an earlier one.
\<close>

definition promotion_tags :: "string \<Rightarrow> string \<Rightarrow> string \<Rightarrow> string \<Rightarrow> string \<Rightarrow> string \<Rightarrow> tags" where
  "promotion_tags prompt_identifier from_env to_env version_tag today now =
     (case ENVIRONMENT_CONFIG to_env of None \<Rightarrow> Map.empty | Some cfg \<Rightarrow> default_tags cfg)
       ++ [''Version'' \<mapsto> version_tag,
           ''PromotedFrom'' \<mapsto> upper from_env,
           ''PromotedDate'' \<mapsto> today,
           ''PromotedTime'' \<mapsto> now,
           ''SourcePromptId'' \<mapsto> prompt_identifier,
           ''PromotionType'' \<mapsto> ''ENVIRONMENT_PROMOTION'']"

text \<open>
  Steps 1 to 6 (lines 310--386).  The outcome is an exception, the early \<open>return False\<close>
  of the handlers inside steps 2 and 3 (which catch ClientError only), or the
  destination's identifier and the source content, with which step 7 goes on.  The
  \<open>print\<close> of step 3 reads the destination's first variant text and raises where that
  fails.
\<close>

datatype 'a step = Raise exn | Return bool | Next 'a

definition promote_steps_1_to_6 ::
  "'s bedrock_agent \<Rightarrow> 's ssm_client \<Rightarrow> string \<Rightarrow> string \<Rightarrow> string \<Rightarrow> string \<Rightarrow> string \<Rightarrow> string
     \<Rightarrow> 's \<Rightarrow> (string \<times> string) step \<times> 's" where
  "promote_steps_1_to_6 c ssm today now prompt_identifier from_env to_env version_tag s =
     (case get_prompt c prompt_identifier s of
        (Inl e, s1) \<Rightarrow> (Raise e, s1)
      | (Inr source_prompt, s1) \<Rightarrow>
     (case variant0_text source_prompt of
        Inl e \<Rightarrow> (Raise e, s1)
      | Inr source_content \<Rightarrow>
     (case ENVIRONMENT_CONFIG to_env of
        None \<Rightarrow> (Raise (KeyError to_env), s1)
      | Some cfg \<Rightarrow>
     (case get_parameter ssm (parameter_store_path cfg) s1 of
        (Inl (ClientError m), s2) \<Rightarrow> (Return False, s2)
      | (Inl e, s2) \<Rightarrow> (Raise e, s2)
      | (Inr target_prompt_id, s2) \<Rightarrow>
     (case get_prompt c target_prompt_id s2 of
        (Inl (ClientError m), s3) \<Rightarrow> (Return False, s3)
      | (Inl e, s3) \<Rightarrow> (Raise e, s3)
      | (Inr target_prompt, s3) \<Rightarrow>
     (case variant0_text target_prompt of
        Inl e \<Rightarrow> (Raise e, s3)
      | Inr _ \<Rightarrow>
     (case updated_variants source_content (variants_or_empty target_prompt) of
        Inl e \<Rightarrow> (Raise e, s3)
      | Inr variants \<Rightarrow>
     (case update_prompt c target_prompt_id (p_name target_prompt)
             (''Promoted from '' @ upper from_env @ '' - '' @ version_tag) variants s3 of
        (Inl e, s4) \<Rightarrow> (Raise e, s4)
      | (Inr _, s4) \<Rightarrow>
     (case create_prompt_version c target_prompt_id
             (''Promoted from '' @ upper from_env @ '' to '' @ upper to_env @ '' - '' @ version_tag)
             s4 of
        (Inl e, s5) \<Rightarrow> (Raise e, s5)
      | (Inr version_response, s5) \<Rightarrow>
     (case tag_resource c (vr_arn version_response)
             (promotion_tags prompt_identifier from_env to_env version_tag today now) s5 of
        (Inl e, s6) \<Rightarrow> (Raise e, s6)
      | (Inr _, s6) \<Rightarrow> (Next (target_prompt_id, source_content), s6)))))))))))"

text \<open>
  Step 7 (lines 388--397): the read-back and the comparison.  Both branches of the
  comparison return True.
\<close>

definition promote_step_7 ::
  "'s bedrock_agent \<Rightarrow> string \<Rightarrow> string \<Rightarrow> 's \<Rightarrow> (exn + bool) \<times> 's" where
  "promote_step_7 c target_prompt_id source_content s =
     (case get_prompt c target_prompt_id s of
        (Inl e, s1) \<Rightarrow> (Inl e, s1)
      | (Inr verification_prompt, s1) \<Rightarrow>
          (case variant0_text verification_prompt of
             Inl e \<Rightarrow> (Inl e, s1)
           | Inr verification_content \<Rightarrow>
               (if verification_content = source_content then (Inr True, s1)
                else (Inr True, s1))))"

text \<open>The whole method: \<open>except Exception\<close> turns every exception into False.\<close>

definition promote_version ::
  "'s bedrock_agent \<Rightarrow> 's ssm_client \<Rightarrow> string \<Rightarrow> string \<Rightarrow> string \<Rightarrow> string \<Rightarrow> string \<Rightarrow> string
     \<Rightarrow> 's \<Rightarrow> bool \<times> 's" where
  "promote_version c ssm today now prompt_identifier from_env to_env version_tag s =
     (case promote_steps_1_to_6 c ssm today now prompt_identifier from_env to_env version_tag s of
        (Raise e, s') \<Rightarrow> (False, s')
      | (Return b, s') \<Rightarrow> (b, s')
      | (Next (target_prompt_id, source_content), s') \<Rightarrow>
          (case promote_step_7 c target_prompt_id source_content s' of
             (Inl e, s'') \<Rightarrow> (False, s'')
           | (Inr b, s'') \<Rightarrow> (b, s'')))"

section \<open>JSON values\<close>

text \<open>
  What \<open>json.loads\<close> returns: \<open>None\<close>, a bool, an int, a float (kept as its text), a
  str, a list or a dict (its items in order, the keys distinct).  The decoder itself and
  Python's \<open>str()\<close> of such a value belong to the standard library: they are the
  parameters \<open>loads\<close> and \<open>py_str\<close> of the functions below.
\<close>

datatype json =
    JNull
  | JBool bool
  | JInt int
  | JFloat string
  | JStr string
  | JList "json list"
  | JDict "(string \<times> json) list"

text \<open>\<open>d.get(k, default)\<close>.\<close>

definition dict_get :: "(string \<times> json) list \<Rightarrow> string \<Rightarrow> json \<Rightarrow> json" where
  "dict_get d k dflt = (case map_of d k of None \<Rightarrow> dflt | Some v \<Rightarrow> v)"

text \<open>A value inside an f-string: a str is itself, any other value its \<open>str()\<close>.\<close>

definition fmt_value :: "(json \<Rightarrow> string) \<Rightarrow> json \<Rightarrow> string" where
  "fmt_value py_str v = (case v of JStr s \<Rightarrow> s | _ \<Rightarrow> py_str v)"

section \<open>Step 4 of \<open>main_process_converse\<close>: from the model's reply to the text groups\<close>

text \<open>The placeholder of line 30, in UTF-8.\<close>

definition NO_RESPONSE :: string where
  "NO_RESPONSE = [CHR 0xEC, CHR 0x9D, CHR 0x91, CHR 0xEB, CHR 0x8B, CHR 0xB5, CHR 0x20,
                  CHR 0xEC, CHR 0x97, CHR 0x86, CHR 0xEC, CHR 0x9D, CHR 0x8C]"

text \<open>The dict literal \<open>{"category": category, "texts": texts}\<close>.\<close>

definition text_group :: "string \<Rightarrow> json \<Rightarrow> json" where
  "text_group category texts = JDict [(''category'', JStr category), (''texts'', texts)]"

text \<open>
  The candidate text handed to the decoder (lines 35--53): the stripped reply, unless the
  reply has a fence.  With a \<open>```json\<close> marker the candidate starts 7 characters after
  the first one, otherwise with a bare \<open>```\<close> 3 characters after the first one; it ends
  at the next \<open>```\<close>, or at the end of the reply when there is none.
\<close>

definition json_text :: "string \<Rightarrow> string" where
  \<open>json_text claude_response =
     (case find_sub ''```json'' claude_response of
        Some i \<Rightarrow>
          (let json_start = i + 7 in
           case str_find claude_response ''```'' json_start of
             Some json_end \<Rightarrow> strip (slice claude_response json_start json_end)
           | None \<Rightarrow> strip (drop json_start claude_response))
      | None \<Rightarrow>
          (case find_sub ''```'' claude_response of
             Some i \<Rightarrow>
               (let json_start = i + 3 in
                case str_find claude_response ''```'' json_start of
                  Some json_end \<Rightarrow> strip (slice claude_response json_start json_end)
                | None \<Rightarrow> strip (drop json_start claude_response))
           | None \<Rightarrow> strip claude_response))\<close>

text \<open>The comprehension of line 61 over \<open>enumerate(parsed_result)\<close>, from index \<open>i\<close> on.\<close>

fun numbered_groups :: "nat \<Rightarrow> json list \<Rightarrow> json list" where
  "numbered_groups i [] = []"
| "numbered_groups i (grp # groups) =
     text_group (''Group '' @ str_nat (i + 1)) grp # numbered_groups (i + 1) groups"

text \<open>
  Lines 28--73.  A reply that is \<open>None\<close>, empty or blank gives the placeholder group.
  Otherwise the candidate is decoded: a list gives one group per element, a dict its
  \<open>groups\<close> entry when it has one, anything else one General group with the value's
  \<open>str()\<close>.  A JSONDecodeError gives one General group with the raw reply; any other
  exception of the decoder leaves the step.
\<close>

definition grouped_texts_of ::
  "(string \<Rightarrow> exn + json) \<Rightarrow> (json \<Rightarrow> string) \<Rightarrow> string option \<Rightarrow> exn + json" where
  "grouped_texts_of loads py_str claude_response =
     (case claude_response of
        None \<Rightarrow> Inr (JList [text_group ''General'' (JList [JStr NO_RESPONSE])])
      | Some reply \<Rightarrow>
          if reply = [] \<or> strip reply = []
          then Inr (JList [text_group ''General'' (JList [JStr NO_RESPONSE])])
          else
            (case loads (json_text reply) of
               Inl (JSONDecodeError m) \<Rightarrow>
                 Inr (JList [text_group ''General'' (JList [JStr reply])])
             | Inl e \<Rightarrow> Inl e
             | Inr parsed_result \<Rightarrow>
                 (case parsed_result of
                    JList groups \<Rightarrow> Inr (JList (numbered_groups 0 groups))
                  | JDict d \<Rightarrow>
                      (case map_of d ''groups'' of
                         Some groups \<Rightarrow> Inr groups
                       | None \<Rightarrow>
                           Inr (JList [text_group ''General''
                                        (JList [JStr (py_str parsed_result)])]))
                  | _ \<Rightarrow>
                      Inr (JList [text_group ''General''
                                   (JList [JStr (py_str parsed_result)])]))))"

section \<open>\<open>format_translation_document\<close>\<close>

text \<open>
  \<open>"\n".join(x)\<close> for a JSON value \<open>x\<close>: a list of strings is joined, a str is joined
  character by character, a dict by its keys; a list with an element that is not a str,
  and a value that cannot be iterated, raise a TypeError.
\<close>

fun strings_of :: "json list \<Rightarrow> string list option" where
  "strings_of [] = Some []"
| "strings_of (JStr s # xs) = map_option ((#) s) (strings_of xs)"
| "strings_of (_ # xs) = None"

definition join_lines :: "json \<Rightarrow> exn + string" where
  "join_lines x =
     (case x of
        JList xs \<Rightarrow> (case strings_of xs of None \<Rightarrow> Inl TypeError
                                         | Some ss \<Rightarrow> Inr (join [CHR 0x0A] ss))
      | JStr s \<Rightarrow> Inr (join [CHR 0x0A] (characters s))
      | JDict d \<Rightarrow> Inr (join [CHR 0x0A] (map fst d))
      | _ \<Rightarrow> Inl TypeError)"

text \<open>
  The text of a group (lines 126--154).  For a dict: the category in brackets and a line
  feed when there is one, then the joined \<open>texts\<close>, or else the \<open>content\<close>, which must
  be a str.  A str is its own text; any other value gives its \<open>str()\<close>.
\<close>

definition group_text :: "(json \<Rightarrow> string) \<Rightarrow> json \<Rightarrow> exn + string" where
  "group_text py_str grp =
     (case grp of
        JDict d \<Rightarrow>
          (let head = (case map_of d ''category'' of
                         Some c \<Rightarrow> ''['' @ fmt_value py_str c @ '']'' @ [CHR 0x0A]
                       | None \<Rightarrow> [])
           in case map_of d ''texts'' of
                Some texts \<Rightarrow> (case join_lines texts of Inl e \<Rightarrow> Inl e
                                                      | Inr t \<Rightarrow> Inr (head @ t))
              | None \<Rightarrow>
                  (case map_of d ''content'' of
                     Some (JStr s) \<Rightarrow> Inr (head @ s)
                   | Some _ \<Rightarrow> Inl TypeError
                   | None \<Rightarrow> Inr head))
      | JStr s \<Rightarrow> Inr s
      | _ \<Rightarrow> Inr (py_str grp))"

text \<open>
  The row appended for group number \<open>i\<close> (lines 158--168): the dict's items in order.
  Category, description, priority and location come from the group when it is a dict and
  has them.
\<close>

definition translation_row ::
  "string \<Rightarrow> string \<Rightarrow> nat \<Rightarrow> json \<Rightarrow> string \<Rightarrow> (string \<times> json) list" where
  "translation_row source_language target_language i grp text =
     (let d = (case grp of JDict d \<Rightarrow> d | _ \<Rightarrow> []) in
      [(''ID'', JStr (''T'' @ pad3 i)),
       (''Category'', dict_get d ''category'' (JStr (''Group_'' @ str_nat i))),
       (''Priority'', dict_get d ''priority'' (JStr ''medium'')),
       (''Location'', dict_get d ''location'' (JStr '''')),
       (''Description'', dict_get d ''description'' (JStr '''')),
       (''Original_Text_'' @ source_language, JStr (strip text)),
       (''Translated_Text_'' @ target_language, JStr ''''),
       (''Notes'', JStr ''''),
       (''Status'', JStr ''Pending'')])"

text \<open>
  The loop over \<open>enumerate(grouped_texts, 1)\<close>, from number \<open>i\<close> on: a group whose
  stripped text is empty adds no row.  The data frame is the list of the rows.
\<close>

fun translation_data ::
  "(json \<Rightarrow> string) \<Rightarrow> string \<Rightarrow> string \<Rightarrow> nat \<Rightarrow> json list
     \<Rightarrow> exn + (string \<times> json) list list" where
  "translation_data py_str source_language target_language i [] = Inr []"
| "translation_data py_str source_language target_language i (grp # groups) =
     (case group_text py_str grp of
        Inl e \<Rightarrow> Inl e
      | Inr text \<Rightarrow>
          (case translation_data py_str source_language target_language (i + 1) groups of
             Inl e \<Rightarrow> Inl e
           | Inr rows \<Rightarrow>
               Inr (if strip text \<noteq> []
                    then translation_row source_language target_language i grp text # rows
                    else rows)))"

definition format_translation_document ::
  "(json \<Rightarrow> string) \<Rightarrow> json list \<Rightarrow> string \<Rightarrow> string \<Rightarrow> exn + (string \<times> json) list list" where
  "format_translation_document py_str grouped_texts source_language target_language =
     translation_data py_str source_language target_language 1 grouped_texts"

section \<open>Stand-ins for the remote services\<close>

text \<open>
  Concrete services on which the theorems below are instantiated.  \<open>table_agent\<close> serves
  prompts and tag sets from two fixed tables: an identifier without an entry gets the
  service's not-found ClientError, and every write is accepted and changes nothing.
\<close>

definition text_prompt :: "string \<Rightarrow> string \<Rightarrow> prompt" where
  "text_prompt a t =
     \<lparr>p_arn = Some a, p_name = Some ''text2sql'', p_description = None,
      p_variants = Some [\<lparr>v_name = ''default'', templateConfiguration = TextTemplate (Some t)\<rparr>]\<rparr>"

definition table_agent :: "(string \<rightharpoonup> prompt) \<Rightarrow> (string \<rightharpoonup> tags) \<Rightarrow> unit bedrock_agent" where
  "table_agent prompts tagsets =
     \<lparr>get_prompt = (\<lambda>i s. (case prompts i of
                               None \<Rightarrow> Inl (ClientError ''ResourceNotFoundException'')
                             | Some p \<Rightarrow> Inr p, s)),
      update_prompt = (\<lambda>i n d vs s. (Inr (), s)),
      create_prompt_version = (\<lambda>i d s. (Inr \<lparr>vr_version = Some ''1'', vr_arn = Some (i @ '':1'')\<rparr>, s)),
      tag_resource = (\<lambda>a t s. (Inr (), s)),
      list_tags_for_resource = (\<lambda>a s. (case tagsets a of
                               None \<Rightarrow> Inl (ClientError ''ResourceNotFoundException'')
                             | Some t \<Rightarrow> Inr (Some t), s))\<rparr>"

definition gap_prompts :: "string \<rightharpoonup> prompt" where
  "gap_prompts = [''P1'' \<mapsto> text_prompt ''arn:P1'' ''SELECT 1'',
                  ''arn:P1:2'' \<mapsto> text_prompt ''arn:P1:2'' ''SELECT 2'']"

definition gap_agent :: "unit bedrock_agent" where
  "gap_agent = table_agent gap_prompts Map.empty"

definition three_prompts :: "string \<rightharpoonup> prompt" where
  "three_prompts = [''P1'' \<mapsto> text_prompt ''arn:P1'' ''SELECT 4'',
                  ''arn:P1:1'' \<mapsto> text_prompt ''arn:P1:1'' ''SELECT 1'',
                  ''arn:P1:2'' \<mapsto> text_prompt ''arn:P1:2'' ''SELECT 2'',
                  ''arn:P1:3'' \<mapsto> text_prompt ''arn:P1:3'' ''SELECT 3'']"

definition three_agent :: "unit bedrock_agent" where
  "three_agent = table_agent three_prompts Map.empty"

definition stale_prompts :: "string \<rightharpoonup> prompt" where
  "stale_prompts = [''P1'' \<mapsto> text_prompt ''arn:P1'' ''SELECT 1'',
                    ''P2'' \<mapsto> text_prompt ''arn:P2'' ''SELECT 2'']"

definition stale_agent :: "unit bedrock_agent" where
  "stale_agent = table_agent stale_prompts Map.empty"

definition fixed_ssm :: "unit ssm_client" where
  "fixed_ssm = \<lparr>get_parameter = (\<lambda>path s. (Inr ''P2'', s))\<rparr>"

text \<open>
  A decoder that knows two texts and raises a JSONDecodeError on every other one, and a
  \<open>str()\<close> that prints every value alike.  On the two texts, and on text that is not
  JSON, \<open>table_loads\<close> answers as \<open>json.loads\<close> does.
\<close>

definition table_loads :: "string \<Rightarrow> exn + json" where
  \<open>table_loads s =
     (if s = ''[["a"],["b"]]'' then Inr (JList [JList [JStr ''a''], JList [JStr ''b'']])
      else if s = ''[]'' then Inr (JList [])
      else Inl (JSONDecodeError ''Expecting value''))\<close>

definition plain_str :: "json \<Rightarrow> string" where
  "plain_str v = ''<value>''"

text \<open>A line feed, and the fenced block with the two one-element lists.\<close>

definition LF :: string where
  "LF = [CHR 0x0A]"

definition fenced_block :: string where
  \<open>fenced_block = ''```json'' @ LF @ ''[["a"],["b"]]'' @ LF @ ''```''\<close>

section \<open>Properties of the version enumerator\<close>

lemma snd_lookup_tags:
  "snd (lookup_tags c a s) = snd (list_tags_for_resource c a s)"
  by (simp add: lookup_tags_def split: prod.splits sum.splits option.splits)

lemma probe_version_absent:
  assumes "fst (get_prompt c (version_arn_of base_arn n) s) = Inl (ClientError m)"
  shows "probe_version c base_arn n s = (Absent, snd (get_prompt c (version_arn_of base_arn n) s))"
  using assms by (cases "get_prompt c (version_arn_of base_arn n) s") (simp add: probe_version_def Let_def)

lemma probe_version_found:
  assumes "fst (get_prompt c (version_arn_of base_arn n) s) = Inr p"
      and "variant0_text p = Inr t"
  shows "probe_version c base_arn n s =
           (Found \<lparr>vi_version = str_nat n,
                   vi_arn = Some (version_arn_of base_arn n),
                   vi_name = p_name p,
                   vi_content = content_preview t,
                   vi_tags = fst (lookup_tags c (version_arn_of base_arn n)
                                    (snd (get_prompt c (version_arn_of base_arn n) s)))\<rparr>,
            snd (list_tags_for_resource c (version_arn_of base_arn n)
                   (snd (get_prompt c (version_arn_of base_arn n) s))))"
  using assms snd_lookup_tags [of c "version_arn_of base_arn n" "snd (get_prompt c (version_arn_of base_arn n) s)"]
  by (cases "get_prompt c (version_arn_of base_arn n) s")
     (auto simp add: probe_version_def Let_def split: prod.splits)

lemma probe_versions_stable:
  assumes pres_get: "\<And>s x. I s \<Longrightarrow> I (snd (get_prompt c x s))"
      and pres_tags: "\<And>s x. I s \<Longrightarrow> I (snd (list_tags_for_resource c x s))"
      and resp: "\<And>s i. I s \<Longrightarrow> n \<le> i \<Longrightarrow> i \<le> max_attempts \<Longrightarrow>
                   (if ex i
                    then \<exists>p t. fst (get_prompt c (version_arn_of base_arn i) s) = Inr p
                                 \<and> variant0_text p = Inr t
                    else \<exists>m. fst (get_prompt c (version_arn_of base_arn i) s) = Inl (ClientError m))"
      and inv: "I s"
  shows "\<exists>vs s'. probe_versions c base_arn n acc s = (Inr (acc @ vs), s') \<and> I s'
            \<and> map vi_version vs = map str_nat (filter ex [n..<Suc max_attempts])"
  using resp inv
proof (induction "Suc max_attempts - n" arbitrary: n acc s)
  case 0
  then have "\<not> n \<le> max_attempts" by simp
  then show ?case using "0.prems"(2) by (simp add: probe_versions.simps)
next
  case (Suc k)
  then have le: "n \<le> max_attempts" and k: "k = Suc max_attempts - Suc n" by simp_all
  have upt: "[n..<Suc max_attempts] = n # [Suc n..<Suc max_attempts]"
    using le by (simp add: upt_conv_Cons)
  let ?arn = "version_arn_of base_arn n"
  let ?s1 = "snd (get_prompt c ?arn s)"
  have I1: "I ?s1" using pres_get Suc.prems(2) by blast
  have resp': "\<And>s i. I s \<Longrightarrow> Suc n \<le> i \<Longrightarrow> i \<le> max_attempts \<Longrightarrow>
                   (if ex i
                    then \<exists>p t. fst (get_prompt c (version_arn_of base_arn i) s) = Inr p
                                 \<and> variant0_text p = Inr t
                    else \<exists>m. fst (get_prompt c (version_arn_of base_arn i) s) = Inl (ClientError m))"
    using Suc.prems(1) by (meson Suc_leD)
  show ?case
  proof (cases "ex n")
    case True
    with Suc.prems(1) [OF Suc.prems(2) le_refl le] obtain p t
      where p: "fst (get_prompt c ?arn s) = Inr p" "variant0_text p = Inr t" by auto
    let ?s2 = "snd (list_tags_for_resource c ?arn ?s1)"
    have I2: "I ?s2" using pres_tags I1 by blast
    obtain info where info: "probe_version c base_arn n s = (Found info, ?s2)"
      "vi_version info = str_nat n"
      using probe_version_found [OF p] by simp
    from Suc.hyps(1) [OF k resp' I2, of "acc @ [info]"]
    obtain vs s' where "probe_versions c base_arn (Suc n) (acc @ [info]) ?s2 = (Inr ((acc @ [info]) @ vs), s')"
      "I s'" "map vi_version vs = map str_nat (filter ex [Suc n..<Suc max_attempts])" by blast
    then show ?thesis using le info True upt
      by (subst probe_versions.simps) (auto intro!: exI [of _ "info # vs"])
  next
    case False
    with Suc.prems(1) [OF Suc.prems(2) le_refl le] obtain m
      where "fst (get_prompt c ?arn s) = Inl (ClientError m)" by auto
    then have ab: "probe_version c base_arn n s = (Absent, ?s1)"
      by (rule probe_version_absent)
    from Suc.hyps(1) [OF k resp' I1, of acc]
    obtain vs s' where "probe_versions c base_arn (Suc n) acc ?s1 = (Inr (acc @ vs), s')"
      "I s'" "map vi_version vs = map str_nat (filter ex [Suc n..<Suc max_attempts])" by blast
    then show ?thesis using le ab False upt
      by (subst probe_versions.simps) auto
  qed
qed

lemma list_versions_stable:
  assumes inv: "I s"
      and pres_get: "\<And>s x. I s \<Longrightarrow> I (snd (get_prompt c x s))"
      and pres_tags: "\<And>s x. I s \<Longrightarrow> I (snd (list_tags_for_resource c x s))"
      and draft: "fst (get_prompt c prompt_identifier s) = Inr draft_prompt"
                 "variant0_text draft_prompt = Inr text"
      and resp: "\<And>s i. I s \<Longrightarrow> 1 \<le> i \<Longrightarrow> i \<le> max_attempts \<Longrightarrow>
                   (if ex i
                    then \<exists>p t. fst (get_prompt c (version_arn_of (p_arn draft_prompt) i) s) = Inr p
                                 \<and> variant0_text p = Inr t
                    else \<exists>m. fst (get_prompt c (version_arn_of (p_arn draft_prompt) i) s)
                               = Inl (ClientError m))"
  shows "\<exists>vs. fst (list_versions_with_tags c prompt_identifier s) = Inr vs
            \<and> map vi_version vs = ''DRAFT'' # map str_nat (filter ex [1..<Suc max_attempts])"
proof -
  let ?s1 = "snd (get_prompt c prompt_identifier s)"
  let ?d = "\<lparr>vi_version = ''DRAFT'', vi_arn = p_arn draft_prompt, vi_name = p_name draft_prompt,
             vi_content = content_preview text, vi_tags = Map.empty\<rparr>"
  have I1: "I ?s1" using inv pres_get by blast
  from probe_versions_stable [of I c 1 ex "p_arn draft_prompt" ?s1 "[?d]", OF pres_get pres_tags resp I1]
  obtain vs s' where vs: "probe_versions c (p_arn draft_prompt) 1 [?d] ?s1 = (Inr ([?d] @ vs), s')"
    "map vi_version vs = map str_nat (filter ex [1..<Suc max_attempts])" by blast
  have "list_versions_body c prompt_identifier s = (Inr (?d # vs), s')"
    using draft vs(1) by (cases "get_prompt c prompt_identifier s") (simp add: list_versions_body_def)
  then have "fst (list_versions_with_tags c prompt_identifier s) = Inr (?d # vs)"
    by (simp add: list_versions_with_tags_def)
  then show ?thesis using vs(2) by simp
qed

lemma table_agent_get:
  "get_prompt (table_agent ps ts) x s =
     (case ps x of None \<Rightarrow> Inl (ClientError ''ResourceNotFoundException'') | Some p \<Rightarrow> Inr p, s)"
  by (simp add: table_agent_def)

lemma variant0_text_text_prompt: "variant0_text (text_prompt a t) = Inr t"
  by (simp add: variant0_text_def text_prompt_def)

lemma lookup_tags_swallow:
  "lookup_tags (c\<lparr>list_tags_for_resource :=
                    \<lambda>a s. case list_tags_for_resource c a s of
                             (Inl e, s') \<Rightarrow> (Inr None, s')
                           | r \<Rightarrow> r\<rparr>) a s
   = lookup_tags c a s"
  by (cases "list_tags_for_resource c a s" rule: prod.exhaust)
     (auto simp: lookup_tags_def split: sum.splits option.splits)

lemma probe_version_same:
  assumes "get_prompt c' = get_prompt c"
      and "\<And>a s. lookup_tags c' a s = lookup_tags c a s"
  shows "probe_version c' base_arn n s = probe_version c base_arn n s"
  unfolding probe_version_def assms ..

lemma probe_versions_same:
  assumes "get_prompt c' = get_prompt c"
      and "\<And>a s. lookup_tags c' a s = lookup_tags c a s"
  shows "probe_versions c' base_arn n acc s = probe_versions c base_arn n acc s"
proof (induction "Suc max_attempts - n" arbitrary: n acc s)
  case 0
  then show ?case by (simp add: probe_versions.simps)
next
  case (Suc k)
  then have k: "k = Suc max_attempts - Suc n" by simp
  show ?case
    by (subst (1 2) probe_versions.simps)
       (simp add: probe_version_same [OF assms] Suc.hyps(1) [OF k] split: prod.splits probe.splits)
qed

lemma list_versions_same:
  assumes "get_prompt c' = get_prompt c"
      and "\<And>a s. lookup_tags c' a s = lookup_tags c a s"
  shows "list_versions_with_tags c' prompt_identifier s
           = list_versions_with_tags c prompt_identifier s"
  unfolding list_versions_with_tags_def list_versions_body_def
    probe_versions_same [OF assms] assms(1) ..

lemma list_versions_swallow:
  "list_versions_with_tags (c\<lparr>list_tags_for_resource :=
                    \<lambda>a s. case list_tags_for_resource c a s of
                             (Inl e, s') \<Rightarrow> (Inr None, s')
                           | r \<Rightarrow> r\<rparr>) prompt_identifier s
   = list_versions_with_tags c prompt_identifier s"
  by (rule list_versions_same) (simp_all only: lookup_tags_swallow, simp)

text \<open>
  C2, as amended.  A not-found answer does not end the enumeration: the loop probes every
  number from 1 to 20 and skips the numbers whose fetch raises a ClientError.  When the
  answers of the service stay the same while the enumerator runs (\<open>ex i\<close> says whether
  the fetch of version \<open>i\<close> succeeds), the result is the draft followed by exactly the
  versions that exist between 1 and 20, in increasing order, whatever gaps lie before
  them.
\<close>

theorem enumerator_skips_absent_versions:
  assumes inv: "I s"
      and pres_get: "\<And>s x. I s \<Longrightarrow> I (snd (get_prompt c x s))"
      and pres_tags: "\<And>s x. I s \<Longrightarrow> I (snd (list_tags_for_resource c x s))"
      and draft: "fst (get_prompt c prompt_identifier s) = Inr draft_prompt"
                 "variant0_text draft_prompt = Inr text"
      and resp: "\<And>s i. I s \<Longrightarrow> 1 \<le> i \<Longrightarrow> i \<le> max_attempts \<Longrightarrow>
                   (if ex i
                    then \<exists>p t. fst (get_prompt c (version_arn_of (p_arn draft_prompt) i) s) = Inr p
                                 \<and> variant0_text p = Inr t
                    else \<exists>m. fst (get_prompt c (version_arn_of (p_arn draft_prompt) i) s)
                               = Inl (ClientError m))"
  shows "\<exists>vs. fst (list_versions_with_tags c prompt_identifier s) = Inr vs
            \<and> map vi_version vs = ''DRAFT'' # map str_nat (filter ex [1..<Suc max_attempts])"
  using assms by (rule list_versions_stable)

theorem enumerator_skips_absent_versions_witness:
  "\<exists>vs. fst (list_versions_with_tags gap_agent ''P1'' ()) = Inr vs
        \<and> map vi_version vs = [''DRAFT'', ''2'']"
proof -
  let ?ex = "\<lambda>i. gap_prompts (version_arn_of (Some ''arn:P1'') i) \<noteq> None"
  have resp: "\<And>s i. True \<Longrightarrow> 1 \<le> i \<Longrightarrow> i \<le> max_attempts \<Longrightarrow>
       (if ?ex i
        then \<exists>p t. fst (get_prompt gap_agent (version_arn_of (p_arn (text_prompt ''arn:P1'' ''SELECT 1'')) i) s) = Inr p
                     \<and> variant0_text p = Inr t
        else \<exists>m. fst (get_prompt gap_agent (version_arn_of (p_arn (text_prompt ''arn:P1'' ''SELECT 1'')) i) s)
                   = Inl (ClientError m))"
    by (auto simp: gap_agent_def table_agent_get gap_prompts_def text_prompt_def variant0_text_def
             split: if_splits)
  have f: "map str_nat (filter ?ex [1..<Suc max_attempts]) = [''2'']"
    by code_simp
  have d: "fst (get_prompt gap_agent ''P1'' ()) = Inr (text_prompt ''arn:P1'' ''SELECT 1'')"
    by (simp add: gap_agent_def table_agent_get gap_prompts_def)
  show ?thesis
    using enumerator_skips_absent_versions [of "\<lambda>_. True" "()" gap_agent "''P1''"
        "text_prompt ''arn:P1'' ''SELECT 1''" "''SELECT 1''" ?ex, OF TrueI TrueI TrueI d variant0_text_text_prompt resp]
    by (simp only: f)
qed

text \<open>
  C2, as stated, fails: with version 1 absent and version 2 present, the fetch of
  version 1 raises the not-found error and version 2 is still in the result.
\<close>

theorem enumerator_continues_after_gap_counterexample:
  "fst (get_prompt gap_agent (version_arn_of (Some ''arn:P1'') 1) ())
     = Inl (ClientError ''ResourceNotFoundException'')
   \<and> map_sum id (map vi_version) (fst (list_versions_with_tags gap_agent ''P1'' ()))
     = Inr [''DRAFT'', ''2'']"
  by code_simp

text \<open>
  C5.  A resource with a draft and exactly the versions 1, 2 and 3 (every fetch of a
  number from 4 to 20 is answered with a ClientError) is enumerated as exactly four
  summaries, the draft first with the label DRAFT, then the versions 1, 2 and 3.
\<close>

theorem three_versions_give_four_summaries:
  assumes inv: "I s"
      and pres_get: "\<And>s x. I s \<Longrightarrow> I (snd (get_prompt c x s))"
      and pres_tags: "\<And>s x. I s \<Longrightarrow> I (snd (list_tags_for_resource c x s))"
      and draft: "fst (get_prompt c prompt_identifier s) = Inr draft_prompt"
                 "variant0_text draft_prompt = Inr text"
      and created: "\<And>s i. I s \<Longrightarrow> 1 \<le> i \<Longrightarrow> i \<le> 3 \<Longrightarrow>
                      \<exists>p t. fst (get_prompt c (version_arn_of (p_arn draft_prompt) i) s) = Inr p
                            \<and> variant0_text p = Inr t"
      and absent: "\<And>s i. I s \<Longrightarrow> 4 \<le> i \<Longrightarrow> i \<le> max_attempts \<Longrightarrow>
                      \<exists>m. fst (get_prompt c (version_arn_of (p_arn draft_prompt) i) s)
                            = Inl (ClientError m)"
  shows "\<exists>vs. fst (list_versions_with_tags c prompt_identifier s) = Inr vs
            \<and> length vs = 4
            \<and> vi_version (hd vs) = ''DRAFT''
            \<and> map vi_version vs = [''DRAFT'', ''1'', ''2'', ''3'']"
proof -
  have three: "map str_nat (filter (\<lambda>i. i \<le> 3) [1..<Suc max_attempts]) = [''1'', ''2'', ''3'']"
    by code_simp
  have resp: "if i \<le> 3
                 then \<exists>p t. fst (get_prompt c (version_arn_of (p_arn draft_prompt) i) s) = Inr p
                              \<and> variant0_text p = Inr t
                 else \<exists>m. fst (get_prompt c (version_arn_of (p_arn draft_prompt) i) s)
                            = Inl (ClientError m)"
    if "I s" "1 \<le> i" "i \<le> max_attempts" for s i
  proof (cases "i \<le> 3")
    case True
    then show ?thesis using created [OF that(1,2)] by simp
  next
    case False
    then have "4 \<le> i" by simp
    then show ?thesis using False absent [OF that(1) _ that(3)] by simp
  qed
  have "\<exists>vs. fst (list_versions_with_tags c prompt_identifier s) = Inr vs
            \<and> map vi_version vs
                = ''DRAFT'' # map str_nat (filter (\<lambda>i. i \<le> 3) [1..<Suc max_attempts])"
    using inv pres_get pres_tags draft resp
    by (rule list_versions_stable [where I = I and ex = "\<lambda>i. i \<le> 3"])
  then have "\<exists>vs. fst (list_versions_with_tags c prompt_identifier s) = Inr vs
            \<and> map vi_version vs = [''DRAFT'', ''1'', ''2'', ''3'']"
    by (simp only: three)
  then obtain vs where vs: "fst (list_versions_with_tags c prompt_identifier s) = Inr vs"
    and labels: "map vi_version vs = [''DRAFT'', ''1'', ''2'', ''3'']"
    by (elim exE conjE)
  from labels have "length (map vi_version vs) = 4" by simp
  then have len: "length vs = 4" by simp
  from len have "vs \<noteq> []" by (cases vs) simp_all
  then have "vi_version (hd vs) = hd (map vi_version vs)" by (simp add: hd_map)
  then have "vi_version (hd vs) = ''DRAFT''" by (simp only: labels list.sel)
  then show ?thesis using vs len labels by (intro exI [of _ vs] conjI)
qed

theorem three_versions_give_four_summaries_witness:
  "\<exists>vs. fst (list_versions_with_tags three_agent ''P1'' ()) = Inr vs
        \<and> length vs = 4
        \<and> vi_version (hd vs) = ''DRAFT''
        \<and> map vi_version vs = [''DRAFT'', ''1'', ''2'', ''3'']"
proof -
  let ?d = "text_prompt ''arn:P1'' ''SELECT 4''"
  have d: "fst (get_prompt three_agent ''P1'' ()) = Inr ?d"
    by (simp add: three_agent_def table_agent_get three_prompts_def)
  have ex: "list_all (\<lambda>i. three_prompts (version_arn_of (Some ''arn:P1'') i) \<noteq> None) [1..<4]"
    by code_simp
  have nex: "list_all (\<lambda>i. three_prompts (version_arn_of (Some ''arn:P1'') i) = None)
               [4..<Suc max_attempts]"
    by code_simp
  have texts: "\<And>x p. three_prompts x = Some p \<Longrightarrow> \<exists>t. variant0_text p = Inr t"
    by (auto simp: three_prompts_def variant0_text_text_prompt split: if_splits)
  have created: "\<And>s i. True \<Longrightarrow> 1 \<le> i \<Longrightarrow> i \<le> 3 \<Longrightarrow>
                      \<exists>p t. fst (get_prompt three_agent (version_arn_of (p_arn ?d) i) s) = Inr p
                            \<and> variant0_text p = Inr t"
  proof -
    fix s :: unit and i :: nat
    assume "1 \<le> i" "i \<le> 3"
    then have "i \<in> set [1..<4]" by simp
    with ex have "three_prompts (version_arn_of (Some ''arn:P1'') i) \<noteq> None"
      unfolding list_all_iff by blast
    then obtain p where p: "three_prompts (version_arn_of (Some ''arn:P1'') i) = Some p" by auto
    with texts obtain t where "variant0_text p = Inr t" by blast
    with p show "\<exists>p t. fst (get_prompt three_agent (version_arn_of (p_arn ?d) i) s) = Inr p
                            \<and> variant0_text p = Inr t"
      by (simp add: three_agent_def table_agent_get text_prompt_def)
  qed
  have absent: "\<And>s i. True \<Longrightarrow> 4 \<le> i \<Longrightarrow> i \<le> max_attempts \<Longrightarrow>
                      \<exists>m. fst (get_prompt three_agent (version_arn_of (p_arn ?d) i) s)
                            = Inl (ClientError m)"
  proof -
    fix s :: unit and i :: nat
    assume "4 \<le> i" "i \<le> max_attempts"
    then have "i \<in> set [4..<Suc max_attempts]" by auto
    with nex have "three_prompts (version_arn_of (Some ''arn:P1'') i) = None"
      unfolding list_all_iff by blast
    then show "\<exists>m. fst (get_prompt three_agent (version_arn_of (p_arn ?d) i) s)
                            = Inl (ClientError m)"
      by (simp add: three_agent_def table_agent_get text_prompt_def)
  qed
  show ?thesis
    using three_versions_give_four_summaries [of "\<lambda>_. True" "()" three_agent "''P1''" ?d "''SELECT 4''",
        OF TrueI TrueI TrueI d variant0_text_text_prompt created absent]
    .
qed

text \<open>
  C3.  The enumerator appends the ellipsis to every content, also to a text of at most
  100 characters: the four texts of eight characters below are all reported with the
  marker.
\<close>

theorem short_content_gets_ellipsis:
  "map_sum id (map vi_content) (fst (list_versions_with_tags three_agent ''P1'' ()))
     = Inr [''SELECT 4...'', ''SELECT 1...'', ''SELECT 2...'', ''SELECT 3...'']"
  by code_simp

text \<open>
  C6.  When the fetch of a numbered version succeeds and the tag lookup raises, whatever
  the exception, the version's summary is appended with the empty tag set.  The failure
  never reaches the caller: the enumerator returns what it returns on a service whose
  tag lookup, instead of raising, answers without tags.
\<close>

theorem tag_lookup_failure_is_swallowed:
  "(get_prompt c (version_arn_of base_arn n) s = (Inr versioned_prompt, s1)
      \<and> variant0_text versioned_prompt = Inr t
      \<and> list_tags_for_resource c (version_arn_of base_arn n) s1 = (Inl e, s2)
    \<longrightarrow> probe_version c base_arn n s =
          (Found \<lparr>vi_version = str_nat n,
                  vi_arn = Some (version_arn_of base_arn n),
                  vi_name = p_name versioned_prompt,
                  vi_content = content_preview t,
                  vi_tags = Map.empty\<rparr>, s2))
   \<and> list_versions_with_tags c prompt_identifier s
       = list_versions_with_tags
           (c\<lparr>list_tags_for_resource :=
                 \<lambda>a s. case list_tags_for_resource c a s of
                          (Inl e, s') \<Rightarrow> (Inr None, s')
                        | r \<Rightarrow> r\<rparr>) prompt_identifier s"
  by (simp add: list_versions_swallow probe_version_def lookup_tags_def Let_def)

theorem tag_lookup_failure_is_swallowed_witness:
  "get_prompt gap_agent (version_arn_of (Some ''arn:P1'') 2) ()
     = (Inr (text_prompt ''arn:P1:2'' ''SELECT 2''), ())
   \<and> variant0_text (text_prompt ''arn:P1:2'' ''SELECT 2'') = Inr ''SELECT 2''
   \<and> list_tags_for_resource gap_agent (version_arn_of (Some ''arn:P1'') 2) ()
     = (Inl (ClientError ''ResourceNotFoundException''), ())
   \<and> probe_version gap_agent (Some ''arn:P1'') 2 () =
          (Found \<lparr>vi_version = str_nat 2,
                  vi_arn = Some (version_arn_of (Some ''arn:P1'') 2),
                  vi_name = p_name (text_prompt ''arn:P1:2'' ''SELECT 2''),
                  vi_content = content_preview ''SELECT 2'',
                  vi_tags = Map.empty\<rparr>, ())"
proof -
  have arn: "version_arn_of (Some ''arn:P1'') 2 = ''arn:P1:2''"
    by code_simp
  have g: "get_prompt gap_agent (version_arn_of (Some ''arn:P1'') 2) ()
             = (Inr (text_prompt ''arn:P1:2'' ''SELECT 2''), ())"
    by (simp add: arn gap_agent_def table_agent_get gap_prompts_def)
  have l: "list_tags_for_resource gap_agent (version_arn_of (Some ''arn:P1'') 2) ()
             = (Inl (ClientError ''ResourceNotFoundException''), ())"
    by (simp add: gap_agent_def table_agent_def)
  show ?thesis
    using tag_lookup_failure_is_swallowed [of gap_agent "Some ''arn:P1''" 2 "()"
        "text_prompt ''arn:P1:2'' ''SELECT 2''" "()" "''SELECT 2''"
        "ClientError ''ResourceNotFoundException''" "()"]
      g l variant0_text_text_prompt [of "''arn:P1:2''" "''SELECT 2''"]
    by blast
qed

section \<open>Properties of rollback and promotion\<close>

text \<open>
  C1.  When steps 1 to 6 of a promotion succeed and the read-back of step 7 returns a
  destination content, the method returns True whatever that content is, equal to the
  source content or not: a mismatch is printed and changes nothing in the result.
\<close>

theorem promotion_succeeds_despite_mismatch:
  assumes steps: "promote_steps_1_to_6 c ssm today now prompt_identifier from_env to_env version_tag s
                    = (Next (target_prompt_id, source_content), s6)"
      and readback: "get_prompt c target_prompt_id s6 = (Inr verification_prompt, s7)"
      and content: "variant0_text verification_prompt = Inr verification_content"
  shows "promote_version c ssm today now prompt_identifier from_env to_env version_tag s
           = (True, s7)"
  using assms by (simp add: promote_version_def promote_step_7_def)

lemma stale_steps:
  "promote_steps_1_to_6 stale_agent fixed_ssm ''2026-01-01'' ''12:00:00''
       ''P1'' ''dev'' ''prod'' ''v1.3.0'' ()
     = (Next (''P2'', ''SELECT 1''), ())"
  by code_simp

theorem promotion_succeeds_despite_mismatch_witness:
  "''SELECT 2'' \<noteq> ''SELECT 1''
   \<and> promote_version stale_agent fixed_ssm ''2026-01-01'' ''12:00:00''
         ''P1'' ''dev'' ''prod'' ''v1.3.0'' () = (True, ())"
proof -
  have r: "get_prompt stale_agent ''P2'' () = (Inr (text_prompt ''arn:P2'' ''SELECT 2''), ())"
    by (simp add: stale_agent_def table_agent_get stale_prompts_def)
  have ne: "''SELECT 2'' \<noteq> ''SELECT 1''" by simp
  show ?thesis
    using promotion_succeeds_despite_mismatch [OF stale_steps r variant0_text_text_prompt] ne
    by simp
qed

text \<open>
  C4.  A rollback that returns True has created a version and attached to it the tag
  set \<open>rollback_tags\<close>, which for every initiating environment maps Environment to
  ROLLBACK, RollbackFrom to DRAFT, RollbackTo to the target version, RollbackDate to the
  date and RollbackReason to the reason.  The rollback path attaches this set alone;
  merged after any set of default tags it still gives Environment = ROLLBACK.
\<close>

theorem rollback_tag_set:
  assumes "rollback_to_version c environment today prompt_identifier target_version
             rollback_reason s = (Inr True, s')"
  shows "(\<exists>rollback_version s3 s4.
            create_prompt_version c prompt_identifier
              (''ROLLBACK to v'' @ target_version @ '' - '' @ rollback_reason) s3
              = (Inr rollback_version, s4)
            \<and> tag_resource c (vr_arn rollback_version)
                  (rollback_tags environment target_version today rollback_reason) s4
              = (Inr (), s'))
         \<and> rollback_tags environment target_version today rollback_reason ''Environment''
             = Some ''ROLLBACK''
         \<and> rollback_tags environment target_version today rollback_reason ''RollbackFrom''
             = Some ''DRAFT''
         \<and> rollback_tags environment target_version today rollback_reason ''RollbackTo''
             = Some target_version
         \<and> rollback_tags environment target_version today rollback_reason ''RollbackDate''
             = Some today
         \<and> rollback_tags environment target_version today rollback_reason ''RollbackReason''
             = Some rollback_reason
         \<and> (base_tags ++ rollback_tags environment target_version today rollback_reason)
               ''Environment'' = Some ''ROLLBACK''"
proof -
  have attached: "\<exists>rollback_version s3 s4.
            create_prompt_version c prompt_identifier
              (''ROLLBACK to v'' @ target_version @ '' - '' @ rollback_reason) s3
              = (Inr rollback_version, s4)
            \<and> tag_resource c (vr_arn rollback_version)
                  (rollback_tags environment target_version today rollback_reason) s4
              = (Inr (), s')"
    using assms
    by (auto simp: rollback_to_version_def rollback_body_def
             split: prod.splits sum.splits exn.splits if_splits)
  have tagvals:
    "rollback_tags environment target_version today rollback_reason ''Environment''
       = Some ''ROLLBACK''"
    "rollback_tags environment target_version today rollback_reason ''RollbackFrom''
       = Some ''DRAFT''"
    "rollback_tags environment target_version today rollback_reason ''RollbackTo''
       = Some target_version"
    "rollback_tags environment target_version today rollback_reason ''RollbackDate''
       = Some today"
    "rollback_tags environment target_version today rollback_reason ''RollbackReason''
       = Some rollback_reason"
    by (simp_all add: rollback_tags_def)
  have "(base_tags ++ rollback_tags environment target_version today rollback_reason)
               ''Environment'' = Some ''ROLLBACK''"
    by (simp add: map_add_def tagvals(1))
  with attached tagvals show ?thesis by (intro conjI)
qed

lemma dev_rollback:
  "rollback_to_version three_agent ''dev'' ''2026-01-01'' ''P1'' ''2'' ''bad release'' ()
     = (Inr True, ())"
  by code_simp

theorem rollback_tag_set_witness:
  "rollback_to_version three_agent ''dev'' ''2026-01-01'' ''P1'' ''2'' ''bad release'' ()
     = (Inr True, ())
   \<and> rollback_tags ''dev'' ''2'' ''2026-01-01'' ''bad release'' ''Environment''
       = Some ''ROLLBACK''
   \<and> rollback_tags ''dev'' ''2'' ''2026-01-01'' ''bad release'' ''RollbackFrom''
       = Some ''DRAFT''
   \<and> rollback_tags ''dev'' ''2'' ''2026-01-01'' ''bad release'' ''RollbackTo''
       = Some ''2''
   \<and> rollback_tags ''dev'' ''2'' ''2026-01-01'' ''bad release'' ''RollbackDate''
       = Some ''2026-01-01''
   \<and> rollback_tags ''dev'' ''2'' ''2026-01-01'' ''bad release'' ''RollbackReason''
       = Some ''bad release''
   \<and> ([''Environment'' \<mapsto> ''DEV'', ''Status'' \<mapsto> ''TESTING'']
        ++ rollback_tags ''dev'' ''2'' ''2026-01-01'' ''bad release'') ''Environment''
       = Some ''ROLLBACK''"
  using dev_rollback
    rollback_tag_set [OF dev_rollback,
      of "[''Environment'' \<mapsto> ''DEV'', ''Status'' \<mapsto> ''TESTING'']"]
  by (elim conjE, intro conjI) assumption+

section \<open>Properties of the reply parser\<close>

lemma prefix_Cons_append:
  "prefix (c # m) (u @ v) \<longleftrightarrow>
     (case u of [] \<Rightarrow> prefix (c # m) v | x # u' \<Rightarrow> c = x \<and> prefix m (u' @ v))"
  by (cases u) auto

lemma prefix_Cons_left:
  "prefix (c # m) u \<longleftrightarrow> (case u of [] \<Rightarrow> False | x # u' \<Rightarrow> c = x \<and> prefix m u')"
  by (cases u) auto

lemma marker_unbordered:
  \<open>u \<noteq> [] \<Longrightarrow> \<not> prefix ''```json'' u \<Longrightarrow> \<not> prefix ''```json'' (u @ ''```json'' @ tail)\<close>
  by (auto simp: prefix_Cons_append prefix_Cons_left split: list.splits)

lemma find_sub_first_marker:
  \<open>find_sub ''```json'' pre = None
     \<Longrightarrow> find_sub ''```json'' (pre @ ''```json'' @ tail) = Some (length pre)\<close>
proof (induction pre)
  case Nil
  show ?case by simp
next
  case (Cons c pre)
  from Cons.prems have np: \<open>\<not> prefix ''```json'' (c # pre)\<close> and rest: \<open>find_sub ''```json'' pre = None\<close>
    by (auto split: if_splits)
  from marker_unbordered [OF _ np, of tail]
  have \<open>\<not> prefix ''```json'' ((c # pre) @ ''```json'' @ tail)\<close> by simp
  then show ?case using Cons.IH [OF rest] by simp
qed

lemma in_set_dropWhile: "x \<in> set xs \<Longrightarrow> \<not> P x \<Longrightarrow> x \<in> set (dropWhile P xs)"
  by (induction xs) auto

lemma dropWhile_stops:
  "\<not> P c \<Longrightarrow> \<exists>pre'. dropWhile P (pre @ c # rest) = pre' @ c # rest \<and> length pre' \<le> length pre"
proof (induction pre)
  case Nil
  then show ?case by simp
next
  case (Cons x pre)
  show ?case
  proof (cases "P x")
    case True
    from Cons.IH [OF Cons.prems] obtain pre' where
      "dropWhile P (pre @ c # rest) = pre' @ c # rest" "length pre' \<le> length pre" by blast
    with True show ?thesis by (intro exI [of _ pre']) simp
  next
    case False
    then show ?thesis by (intro exI [of _ "x # pre"]) simp
  qed
qed

lemma character_at:
  assumes "\<not> continuation c"
  shows "(c # takeWhile continuation rest) \<in> set (characters (pre @ c # rest))"
proof (induction "length pre" arbitrary: pre rule: less_induct)
  case less
  show ?case
  proof (cases pre)
    case Nil
    then show ?thesis by simp
  next
    case (Cons x pre')
    from dropWhile_stops [where P = continuation and c = c and pre = pre' and rest = rest,
        OF assms] obtain pre'' where
      d: "dropWhile continuation (pre' @ c # rest) = pre'' @ c # rest"
      and l: "length pre'' \<le> length pre'" by blast
    from l Cons have "length pre'' < length pre" by simp
    from less [OF this]
    have "(c # takeWhile continuation rest) \<in> set (characters (pre'' @ c # rest))" .
    with d Cons show ?thesis by simp
  qed
qed

lemma strip_nonempty_if:
  assumes "ch \<in> set (characters s)" and "ch \<noteq> []" and "\<not> isspace ch"
  shows "strip s \<noteq> []"
proof -
  from assms(1,3) have "ch \<in> set (dropWhile isspace (characters s))"
    by (rule in_set_dropWhile)
  then have "ch \<in> set (rev (dropWhile isspace (characters s)))" by simp
  from this assms(3)
  have "ch \<in> set (dropWhile isspace (rev (dropWhile isspace (characters s))))"
    by (rule in_set_dropWhile)
  then have "ch \<in> set (rev (dropWhile isspace (rev (dropWhile isspace (characters s)))))"
    by simp
  with assms(2) show ?thesis
    unfolding strip_def concat_eq_Nil_conv by blast
qed

lemma strip_nonempty: "strip s \<noteq> [] \<Longrightarrow> s \<noteq> []"
  by (auto simp: strip_def)

lemma backtick_not_space: "\<not> isspace [CHR 0x60]"
  by code_simp

lemma strip_marker_nonempty: \<open>strip (pre @ ''```json'' @ tail) \<noteq> []\<close>
proof -
  have nc: "\<not> continuation (CHR 0x60)" by (simp add: continuation_def)
  have \<open>(CHR 0x60 # takeWhile continuation (''``json'' @ tail))
          \<in> set (characters (pre @ CHR 0x60 # (''``json'' @ tail)))\<close>
    using nc by (rule character_at)
  then have \<open>[CHR 0x60] \<in> set (characters (pre @ ''```json'' @ tail))\<close>
    using nc by simp
  then show ?thesis
    by (rule strip_nonempty_if) (simp_all add: backtick_not_space)
qed

lemma grouped_texts_of_list:
  assumes "strip reply \<noteq> []"
      and "loads (json_text reply) = Inr (JList groups)"
  shows "grouped_texts_of loads py_str (Some reply) = Inr (JList (numbered_groups 0 groups))"
  using assms strip_nonempty [OF assms(1)] by (simp add: grouped_texts_of_def)

lemma grouped_texts_of_blank:
  assumes "strip reply = []"
  shows "grouped_texts_of loads py_str (Some reply)
           = Inr (JList [text_group ''General'' (JList [JStr NO_RESPONSE])])"
  using assms by (simp add: grouped_texts_of_def)

lemma json_text_first_marker:
  assumes \<open>find_sub ''```json'' pre = None\<close>
  shows \<open>json_text (pre @ ''```json'' @ tail) =
           (case find_sub ''```'' tail of
              Some e \<Rightarrow> strip (take e tail)
            | None \<Rightarrow> strip tail)\<close>
proof -
  have d: \<open>drop (length pre + 7) (pre @ ''```json'' @ tail) = tail\<close> by simp
  have l: \<open>\<not> length (pre @ ''```json'' @ tail) < length pre + 7\<close> by simp
  show ?thesis
    unfolding json_text_def find_sub_first_marker [OF assms] option.case Let_def
      str_find_def slice_def d if_not_P [OF l]
    by (cases \<open>find_sub ''```'' tail\<close>) simp_all
qed

lemma find_fence_in_block:
  \<open>find_sub ''```'' (LF @ ''[["a"],["b"]]'' @ LF @ ''```'' @ post) = Some 15\<close>
  by (simp add: LF_def)

lemma strip_block_lines: \<open>strip (LF @ ''[["a"],["b"]]'' @ LF) = ''[["a"],["b"]]''\<close>
  by code_simp

lemma json_text_fenced_block:
  assumes \<open>find_sub ''```json'' pre = None\<close>
  shows \<open>json_text (pre @ fenced_block @ post) = ''[["a"],["b"]]''\<close>
proof -
  have \<open>pre @ fenced_block @ post
          = pre @ ''```json'' @ (LF @ ''[["a"],["b"]]'' @ LF @ ''```'' @ post)\<close>
    by (simp add: fenced_block_def)
  then have \<open>json_text (pre @ fenced_block @ post)
          = strip (take 15 (LF @ ''[["a"],["b"]]'' @ LF @ ''```'' @ post))\<close>
    by (simp only: json_text_first_marker [OF assms] find_fence_in_block option.case)
  also have \<open>take 15 (LF @ ''[["a"],["b"]]'' @ LF @ ''```'' @ post)
          = LF @ ''[["a"],["b"]]'' @ LF\<close>
    by (simp add: LF_def)
  finally show ?thesis by (simp only: strip_block_lines)
qed

lemma numbered_two:
  "numbered_groups 0 [x, y] = [text_group ''Group 1'' x, text_group ''Group 2'' y]"
proof -
  have s1: "str_nat (0 + 1) = ''1''" and s2: "str_nat (0 + 1 + 1) = ''2''"
    by code_simp+
  show ?thesis
    by (simp only: numbered_groups.simps s1 s2) simp
qed

lemma length_numbered_groups: "length (numbered_groups i groups) = length groups"
  by (induction groups arbitrary: i) simp_all

text \<open>
  C7, as amended.  When no \<open>```json\<close> marker stands before the fenced block in the
  reply, the text handed to the decoder is exactly \<open>[["a"],["b"]]\<close>, and once the
  decoder returns the two-element list the step produces exactly the two groups
  ``Group 1'' and ``Group 2''.  A reply that is absent, empty or made of whitespace
  only produces exactly one group, of category General, with the placeholder as its
  single text.
\<close>

theorem first_json_fence_is_decoded:
  assumes \<open>find_sub ''```json'' pre = None\<close>
      and \<open>loads ''[["a"],["b"]]'' = Inr (JList [JList [JStr ''a''], JList [JStr ''b'']])\<close>
      and \<open>strip blank = []\<close>
  shows \<open>json_text (pre @ fenced_block @ post) = ''[["a"],["b"]]''
         \<and> grouped_texts_of loads py_str (Some (pre @ fenced_block @ post))
             = Inr (JList [JDict [(''category'', JStr ''Group 1''),
                                  (''texts'', JList [JStr ''a''])],
                           JDict [(''category'', JStr ''Group 2''),
                                  (''texts'', JList [JStr ''b''])]])
         \<and> grouped_texts_of loads py_str (Some blank)
             = Inr (JList [JDict [(''category'', JStr ''General''),
                                  (''texts'', JList [JStr NO_RESPONSE])]])
         \<and> grouped_texts_of loads py_str None
             = Inr (JList [JDict [(''category'', JStr ''General''),
                                  (''texts'', JList [JStr NO_RESPONSE])]])\<close>
proof -
  have \<open>pre @ fenced_block @ post
          = pre @ ''```json'' @ (LF @ ''[["a"],["b"]]'' @ LF @ ''```'' @ post)\<close>
    by (simp add: fenced_block_def)
  then have ne: \<open>strip (pre @ fenced_block @ post) \<noteq> []\<close>
    by (simp only: strip_marker_nonempty not_False_eq_True)
  have jt: \<open>json_text (pre @ fenced_block @ post) = ''[["a"],["b"]]''\<close>
    using assms(1) by (rule json_text_fenced_block)
  have \<open>loads (json_text (pre @ fenced_block @ post))
          = Inr (JList [JList [JStr ''a''], JList [JStr ''b'']])\<close>
    by (simp only: jt assms(2))
  with ne have \<open>grouped_texts_of loads py_str (Some (pre @ fenced_block @ post))
             = Inr (JList (numbered_groups 0 [JList [JStr ''a''], JList [JStr ''b'']]))\<close>
    by (rule grouped_texts_of_list)
  then have g: \<open>grouped_texts_of loads py_str (Some (pre @ fenced_block @ post))
             = Inr (JList [text_group ''Group 1'' (JList [JStr ''a'']),
                           text_group ''Group 2'' (JList [JStr ''b''])])\<close>
    by (simp only: numbered_two)
  have n: \<open>grouped_texts_of loads py_str None
             = Inr (JList [text_group ''General'' (JList [JStr NO_RESPONSE])])\<close>
    by (simp add: grouped_texts_of_def)
  from jt g grouped_texts_of_blank [OF assms(3), of loads py_str] n
  show ?thesis unfolding text_group_def by (intro conjI)
qed

theorem first_json_fence_is_decoded_witness:
  \<open>find_sub ''```json'' (''Here are the groups:'' @ LF) = None
   \<and> table_loads ''[["a"],["b"]]'' = Inr (JList [JList [JStr ''a''], JList [JStr ''b'']])
   \<and> strip ([CHR 0xE3, CHR 0x80, CHR 0x80] @ '' '' @ LF) = []
   \<and> json_text ((''Here are the groups:'' @ LF) @ fenced_block @ (LF @ ''Done.''))
       = ''[["a"],["b"]]''
   \<and> grouped_texts_of table_loads plain_str
         (Some ((''Here are the groups:'' @ LF) @ fenced_block @ (LF @ ''Done.'')))
       = Inr (JList [JDict [(''category'', JStr ''Group 1''), (''texts'', JList [JStr ''a''])],
                     JDict [(''category'', JStr ''Group 2''), (''texts'', JList [JStr ''b''])]])
   \<and> grouped_texts_of table_loads plain_str (Some ([CHR 0xE3, CHR 0x80, CHR 0x80] @ '' '' @ LF))
       = Inr (JList [JDict [(''category'', JStr ''General''),
                            (''texts'', JList [JStr NO_RESPONSE])]])
   \<and> grouped_texts_of table_loads plain_str None
       = Inr (JList [JDict [(''category'', JStr ''General''),
                            (''texts'', JList [JStr NO_RESPONSE])]])\<close>
proof -
  have h1: \<open>find_sub ''```json'' (''Here are the groups:'' @ LF) = None\<close>
    by code_simp
  have h2: \<open>table_loads ''[["a"],["b"]]'' = Inr (JList [JList [JStr ''a''], JList [JStr ''b'']])\<close>
    by code_simp
  have h3: \<open>strip ([CHR 0xE3, CHR 0x80, CHR 0x80] @ '' '' @ LF) = []\<close>
    by code_simp
  from first_json_fence_is_decoded [where loads = table_loads and py_str = plain_str
      and post = \<open>LF @ ''Done.''\<close>, OF h1 h2 h3] h1 h2 h3
  show ?thesis by (elim conjE, intro conjI) assumption+
qed

text \<open>
  C7, as stated, fails: a reply can contain the fenced block after an earlier
  \<open>```json\<close> fence.  The step decodes the first fence only; here that is \<open>[]\<close>, and no
  group is produced although the block is in the reply.
\<close>

theorem later_json_fence_is_ignored_counterexample:
  \<open>table_loads ''[["a"],["b"]]'' = Inr (JList [JList [JStr ''a''], JList [JStr ''b'']])
   \<and> grouped_texts_of table_loads plain_str
         (Some ((''```json'' @ LF @ ''[]'' @ LF @ ''```'' @ LF) @ fenced_block))
       = Inr (JList [])\<close>
  by code_simp

text \<open>
  C8.  For a reply that is not blank, when the decoder raises a JSONDecodeError on the
  candidate text, the step returns exactly one group, of category General, whose texts
  are the raw reply; no exception leaves the step.
\<close>

theorem undecodable_reply_falls_back:
  assumes "strip reply \<noteq> []"
      and "loads (json_text reply) = Inl (JSONDecodeError m)"
  shows "grouped_texts_of loads py_str (Some reply)
           = Inr (JList [JDict [(''category'', JStr ''General''),
                                (''texts'', JList [JStr reply])]])"
proof -
  from assms(1) have "reply \<noteq> []" by (rule strip_nonempty)
  with assms show ?thesis by (simp add: grouped_texts_of_def text_group_def)
qed

theorem undecodable_reply_falls_back_witness:
  "strip ''no groups here'' \<noteq> []
   \<and> table_loads (json_text ''no groups here'') = Inl (JSONDecodeError ''Expecting value'')
   \<and> grouped_texts_of table_loads plain_str (Some ''no groups here'')
       = Inr (JList [JDict [(''category'', JStr ''General''),
                            (''texts'', JList [JStr ''no groups here''])]])"
proof -
  have h1: "strip ''no groups here'' \<noteq> []"
    by code_simp
  have h2: "table_loads (json_text ''no groups here'') = Inl (JSONDecodeError ''Expecting value'')"
    by code_simp
  from undecodable_reply_falls_back [where loads = table_loads and py_str = plain_str, OF h1 h2]
    h1 h2
  show ?thesis by (intro conjI)
qed

text \<open>
  C10.  When the first \<open>```json\<close> marker of the reply is followed by no \<open>```\<close>, the
  candidate is everything after the marker, stripped; and when the decoder returns a
  list of \<open>n\<close> elements for it, the step produces exactly \<open>n\<close> groups.
\<close>

theorem unclosed_json_fence_runs_to_the_end:
  assumes \<open>find_sub ''```json'' pre = None\<close>
      and \<open>find_sub ''```'' tail = None\<close>
      and \<open>loads (strip tail) = Inr (JList groups)\<close>
  shows \<open>json_text (pre @ ''```json'' @ tail) = strip tail
         \<and> grouped_texts_of loads py_str (Some (pre @ ''```json'' @ tail))
             = Inr (JList (numbered_groups 0 groups))
         \<and> length (numbered_groups 0 groups) = length groups\<close>
proof -
  have jt: \<open>json_text (pre @ ''```json'' @ tail) = strip tail\<close>
    by (simp only: json_text_first_marker [OF assms(1)] assms(2) option.case)
  have ne: \<open>strip (pre @ ''```json'' @ tail) \<noteq> []\<close> by (rule strip_marker_nonempty)
  have \<open>loads (json_text (pre @ ''```json'' @ tail)) = Inr (JList groups)\<close>
    by (simp only: jt assms(3))
  with ne have g: \<open>grouped_texts_of loads py_str (Some (pre @ ''```json'' @ tail))
             = Inr (JList (numbered_groups 0 groups))\<close>
    by (rule grouped_texts_of_list)
  from jt g length_numbered_groups [of 0 groups] show ?thesis by (intro conjI)
qed

theorem unclosed_json_fence_runs_to_the_end_witness:
  \<open>find_sub ''```json'' ''Result: '' = None
   \<and> find_sub ''```'' (LF @ ''[["a"],["b"]]'' @ [CHR 0xC2, CHR 0xA0]) = None
   \<and> table_loads (strip (LF @ ''[["a"],["b"]]'' @ [CHR 0xC2, CHR 0xA0]))
       = Inr (JList [JList [JStr ''a''], JList [JStr ''b'']])
   \<and> json_text (''Result: '' @ ''```json'' @ (LF @ ''[["a"],["b"]]'' @ [CHR 0xC2, CHR 0xA0]))
       = strip (LF @ ''[["a"],["b"]]'' @ [CHR 0xC2, CHR 0xA0])
   \<and> grouped_texts_of table_loads plain_str
         (Some (''Result: '' @ ''```json'' @ (LF @ ''[["a"],["b"]]'' @ [CHR 0xC2, CHR 0xA0])))
       = Inr (JList (numbered_groups 0 [JList [JStr ''a''], JList [JStr ''b'']]))
   \<and> length (numbered_groups 0 [JList [JStr ''a''], JList [JStr ''b'']]) = 2\<close>
proof -
  have h1: \<open>find_sub ''```json'' ''Result: '' = None\<close>
    by code_simp
  have h2: \<open>find_sub ''```'' (LF @ ''[["a"],["b"]]'' @ [CHR 0xC2, CHR 0xA0]) = None\<close>
    by code_simp
  have h3: \<open>table_loads (strip (LF @ ''[["a"],["b"]]'' @ [CHR 0xC2, CHR 0xA0]))
       = Inr (JList [JList [JStr ''a''], JList [JStr ''b'']])\<close>
    by code_simp
  have two: \<open>length [JList [JStr ''a''], JList [JStr ''b'']] = 2\<close> by simp
  from unclosed_json_fence_runs_to_the_end [where loads = table_loads and py_str = plain_str,
      OF h1 h2 h3] h1 h2 h3
  show ?thesis unfolding two by (elim conjE, intro conjI) assumption+
qed

section \<open>Properties of the spreadsheet export\<close>

lemma translation_row_columns:
  "map fst (translation_row source_language target_language i grp t) =
     [''ID'', ''Category'', ''Priority'', ''Location'', ''Description'',
      ''Original_Text_'' @ source_language, ''Translated_Text_'' @ target_language,
      ''Notes'', ''Status'']"
  "translation_row source_language target_language i grp t ! 5
     = (''Original_Text_'' @ source_language, JStr (strip t))"
  "translation_row source_language target_language i grp t ! 6
     = (''Translated_Text_'' @ target_language, JStr '''')"
  "translation_row source_language target_language i grp t ! 7 = (''Notes'', JStr '''')"
  "translation_row source_language target_language i grp t ! 8 = (''Status'', JStr ''Pending'')"
  by (simp_all add: translation_row_def Let_def)

lemma translation_data_Cons:
  assumes "group_text py_str g = Inr t"
      and "translation_data py_str source_language target_language (i + 1) groups = Inr rows"
  shows "translation_data py_str source_language target_language i (g # groups)
           = Inr (if strip t \<noteq> []
                  then translation_row source_language target_language i g t # rows
                  else rows)"
  using assms by simp

lemma translation_data_rows:
  assumes "\<forall>g \<in> set groups. \<exists>t. group_text py_str g = Inr t"
  shows "\<exists>rows. translation_data py_str source_language target_language i groups = Inr rows
           \<and> length rows
               = length (filter (\<lambda>g. case group_text py_str g of
                                       Inl e \<Rightarrow> False | Inr t \<Rightarrow> strip t \<noteq> []) groups)
           \<and> (\<forall>row \<in> set rows.
                 map fst row =
                   [''ID'', ''Category'', ''Priority'', ''Location'', ''Description'',
                    ''Original_Text_'' @ source_language,
                    ''Translated_Text_'' @ target_language, ''Notes'', ''Status'']
                 \<and> row ! 6 = (''Translated_Text_'' @ target_language, JStr '''')
                 \<and> row ! 7 = (''Notes'', JStr '''')
                 \<and> row ! 8 = (''Status'', JStr ''Pending''))
           \<and> map (\<lambda>row. row ! 5) rows
               = map (\<lambda>g. (''Original_Text_'' @ source_language,
                            JStr (strip (case group_text py_str g of
                                           Inl e \<Rightarrow> [] | Inr t \<Rightarrow> t))))
                   (filter (\<lambda>g. case group_text py_str g of
                                   Inl e \<Rightarrow> False | Inr t \<Rightarrow> strip t \<noteq> []) groups)"
    (is "\<exists>rows. ?R i groups rows \<and> ?N groups rows \<and> ?P rows \<and> ?O groups rows")
  using assms
proof (induction groups arbitrary: i)
  case Nil
  show ?case by simp
next
  case (Cons g groups)
  from Cons.prems obtain t where t: "group_text py_str g = Inr t" by auto
  from Cons.prems have "\<forall>g \<in> set groups. \<exists>t. group_text py_str g = Inr t" by simp
  from Cons.IH [OF this, of "i + 1"] obtain rows where
    rows: "?R (i + 1) groups rows" and n: "?N groups rows" and p: "?P rows"
    and o: "?O groups rows"
    by (elim exE conjE)
  note step = translation_data_Cons [OF t rows]
  show ?case
  proof (cases "strip t = []")
    case True
    with step have R: "?R i (g # groups) rows" by simp
    from n True t have N: "?N (g # groups) rows" by simp
    from o True t have O: "?O (g # groups) rows" by simp
    from R N p O show ?thesis by (intro exI [of _ rows] conjI)
  next
    case False
    let ?row = "translation_row source_language target_language i g t"
    from step False have R: "?R i (g # groups) (?row # rows)" by simp
    from n False t have N: "?N (g # groups) (?row # rows)" by simp
    from p have P: "?P (?row # rows)" by (simp add: translation_row_columns)
    from o False t have O: "?O (g # groups) (?row # rows)"
      by (simp add: translation_row_columns)
    from R N P O show ?thesis by (intro exI [of _ "?row # rows"] conjI)
  qed
qed

text \<open>
  C9, as amended.  When every group has a text (no join or concatenation raises), the
  document has exactly one row for each group whose stripped text is not empty, in
  order; a group with a blank text gets no row.  Every row has the nine columns ID,
  Category, Priority, Location, Description, Original_Text, Translated_Text, Notes and
  Status, with the group's stripped text as original text, an empty translated text, an
  empty note and the status Pending.
\<close>

theorem one_row_per_nonblank_group:
  assumes "\<forall>g \<in> set grouped_texts. \<exists>t. group_text py_str g = Inr t"
  shows "\<exists>rows. format_translation_document py_str grouped_texts source_language target_language
                  = Inr rows
           \<and> length rows
               = length (filter (\<lambda>g. case group_text py_str g of
                                       Inl e \<Rightarrow> False | Inr t \<Rightarrow> strip t \<noteq> []) grouped_texts)
           \<and> (\<forall>row \<in> set rows.
                 map fst row =
                   [''ID'', ''Category'', ''Priority'', ''Location'', ''Description'',
                    ''Original_Text_'' @ source_language,
                    ''Translated_Text_'' @ target_language, ''Notes'', ''Status'']
                 \<and> row ! 6 = (''Translated_Text_'' @ target_language, JStr '''')
                 \<and> row ! 7 = (''Notes'', JStr '''')
                 \<and> row ! 8 = (''Status'', JStr ''Pending''))
           \<and> map (\<lambda>row. row ! 5) rows
               = map (\<lambda>g. (''Original_Text_'' @ source_language,
                            JStr (strip (case group_text py_str g of
                                           Inl e \<Rightarrow> [] | Inr t \<Rightarrow> t))))
                   (filter (\<lambda>g. case group_text py_str g of
                                   Inl e \<Rightarrow> False | Inr t \<Rightarrow> strip t \<noteq> []) grouped_texts)"
  unfolding format_translation_document_def using assms by (rule translation_data_rows)

theorem one_row_per_nonblank_group_witness:
  "group_text plain_str
       (JDict [(''category'', JStr ''Title''),
               (''texts'', JList [JStr (''hello'' @ [CHR 0xE3, CHR 0x80, CHR 0x80])])])
     = Inr (''[Title]'' @ LF @ ''hello'' @ [CHR 0xE3, CHR 0x80, CHR 0x80])
   \<and> group_text plain_str (JStr ([CHR 0xC2, CHR 0xA0] @ '' ''))
       = Inr ([CHR 0xC2, CHR 0xA0] @ '' '')
   \<and> (\<exists>rows. format_translation_document plain_str
                [JDict [(''category'', JStr ''Title''),
                        (''texts'', JList [JStr (''hello'' @ [CHR 0xE3, CHR 0x80, CHR 0x80])])],
                 JStr ([CHR 0xC2, CHR 0xA0] @ '' '')] ''Korean'' ''English'' = Inr rows
         \<and> length rows = 1
         \<and> map (\<lambda>row. row ! 5) rows
             = [(''Original_Text_Korean'', JStr (''[Title]'' @ LF @ ''hello''))]
         \<and> map (\<lambda>row. row ! 8) rows = [(''Status'', JStr ''Pending'')])"
proof -
  let ?g1 = "JDict [(''category'', JStr ''Title''),
                    (''texts'', JList [JStr (''hello'' @ [CHR 0xE3, CHR 0x80, CHR 0x80])])]"
  let ?g2 = "JStr ([CHR 0xC2, CHR 0xA0] @ '' '')"
  let ?nonblank = "\<lambda>g. case group_text plain_str g of Inl e \<Rightarrow> False | Inr t \<Rightarrow> strip t \<noteq> []"
  have t1: "group_text plain_str ?g1
              = Inr (''[Title]'' @ LF @ ''hello'' @ [CHR 0xE3, CHR 0x80, CHR 0x80])"
    by code_simp
  have t2: "group_text plain_str ?g2 = Inr ([CHR 0xC2, CHR 0xA0] @ '' '')"
    by code_simp
  have f: "filter ?nonblank [?g1, ?g2] = [?g1]"
    by code_simp
  have s1: "(''Original_Text_'' @ ''Korean'',
             JStr (strip (case group_text plain_str ?g1 of Inl e \<Rightarrow> [] | Inr t \<Rightarrow> t)))
            = (''Original_Text_Korean'', JStr (''[Title]'' @ LF @ ''hello''))"
    by code_simp
  have all: "\<forall>g \<in> set [?g1, ?g2]. \<exists>t. group_text plain_str g = Inr t"
    using t1 t2 by simp
  from one_row_per_nonblank_group [OF all, of "''Korean''" "''English''"]
  obtain rows where
    r: "format_translation_document plain_str [?g1, ?g2] ''Korean'' ''English'' = Inr rows"
    and n: "length rows = length (filter ?nonblank [?g1, ?g2])"
    and p: "\<forall>row \<in> set rows.
                 map fst row =
                   [''ID'', ''Category'', ''Priority'', ''Location'', ''Description'',
                    ''Original_Text_'' @ ''Korean'',
                    ''Translated_Text_'' @ ''English'', ''Notes'', ''Status'']
                 \<and> row ! 6 = (''Translated_Text_'' @ ''English'', JStr '''')
                 \<and> row ! 7 = (''Notes'', JStr '''')
                 \<and> row ! 8 = (''Status'', JStr ''Pending'')"
    and o: "map (\<lambda>row. row ! 5) rows
               = map (\<lambda>g. (''Original_Text_'' @ ''Korean'',
                            JStr (strip (case group_text plain_str g of
                                           Inl e \<Rightarrow> [] | Inr t \<Rightarrow> t))))
                   (filter ?nonblank [?g1, ?g2])"
    by (elim exE conjE)
  from n have n1: "length rows = 1"
    by (simp only: f) simp
  from o have o1: "map (\<lambda>row. row ! 5) rows
             = [(''Original_Text_Korean'', JStr (''[Title]'' @ LF @ ''hello''))]"
    by (simp only: f list.map s1)
  from n1 obtain row where rows: "rows = [row]"
    by (cases rows) simp_all
  from p have "row ! 8 = (''Status'', JStr ''Pending'')"
    unfolding rows by simp
  then have p1: "map (\<lambda>row. row ! 8) rows = [(''Status'', JStr ''Pending'')]"
    unfolding rows by simp
  from r n1 o1 p1
  have "\<exists>rows. format_translation_document plain_str [?g1, ?g2] ''Korean'' ''English'' = Inr rows
         \<and> length rows = 1
         \<and> map (\<lambda>row. row ! 5) rows
             = [(''Original_Text_Korean'', JStr (''[Title]'' @ LF @ ''hello''))]
         \<and> map (\<lambda>row. row ! 8) rows = [(''Status'', JStr ''Pending'')]"
    by (intro exI [of _ rows] conjI)
  with t1 t2 show ?thesis by (intro conjI)
qed

text \<open>
  C9, as stated, fails: of the two groups below, the second has no text and gets no
  row, so the document has one row for two groups.
\<close>

theorem blank_group_gets_no_row_counterexample:
  "format_translation_document plain_str
     [JDict [(''texts'', JList [JStr ''hello''])], JDict [(''texts'', JList [])]]
     ''Korean'' ''English''
   = Inr [[(''ID'', JStr ''T001''), (''Category'', JStr ''Group_1''),
           (''Priority'', JStr ''medium''), (''Location'', JStr ''''),
           (''Description'', JStr ''''), (''Original_Text_Korean'', JStr ''hello''),
           (''Translated_Text_English'', JStr ''''), (''Notes'', JStr ''''),
           (''Status'', JStr ''Pending'')]]"
  by code_simp

end
